theory Spec2Isabelle
  imports Complex_Main "HOL-Library.Log_Nat"
begin

section \<open>The browser adapter of the game engine: \<open>renderCanvas\<close>\<close>

text \<open>
  The development embeds \<^verbatim>\<open>packages/replay-web/src/index.ts\<close>. The function
  \<^verbatim>\<open>renderCanvas\<close> is one closure: its \<^verbatim>\<open>let\<close> variables are the fields of the record
  \<open>closure\<close>, the inner functions take the record and return it updated, and what they do
  to the browser (listeners, animation-frame requests, the store) is the record \<open>browser\<close>.

  JavaScript numbers are modelled as rationals, and \<^verbatim>\<open>NaN\<close> occurs only where the source
  tests for it (\<^verbatim>\<open>isNaN\<close>), as \<open>None\<close>. The arithmetic of the source (\<^verbatim>\<open>-\<close>, \<^verbatim>\<open>*\<close>,
  comparisons, \<^verbatim>\<open>Math.round\<close>) is read without rounding error, except for the frame
  clock, which is given twice: exactly, and with the rounding of binary64, where the order
  of the elapsed times depends on it.
\<close>

subsection \<open>Data\<close>

text \<open>\<^verbatim>\<open>DeviceSize\<close> of the engine core, with the fields this file reads.\<close>

record DeviceSize =
  width :: rat
  height :: rat
  widthMargin :: rat
  heightMargin :: rat
  deviceWidth :: rat
  deviceHeight :: rat
  fullWidth :: rat
  fullHeight :: rat

text \<open>The \<^verbatim>\<open>let\<close> variables of \<^verbatim>\<open>renderCanvas\<close> and of \<^verbatim>\<open>launch\<close>, and the mutable
  fields of \<^verbatim>\<open>mutResolution\<close> and \<^verbatim>\<open>mutDevice\<close>. The four variables \<^verbatim>\<open>pointerDown\<close>,
  \<^verbatim>\<open>pointerMove\<close>, \<^verbatim>\<open>pointerUp\<close>, \<^verbatim>\<open>pointerCancel\<close> are assigned together, each time to
  fresh function objects: \<open>pointerFns\<close> numbers the assignment they hold (\<open>0\<close>: still
  unassigned).\<close>

record closure =
  isInFocus :: bool
  isPageVisible :: bool
  lastTimeValue :: rat
  needsToUpdateNotVisibleTime :: bool
  lastPageNotVisibleTime :: rat
  totalPageNotVisibleTime :: rat
  prevDeviceSize :: "DeviceSize option"
  pointerFns :: nat
  mutDevice_size :: DeviceSize
  resolution :: rat
  hasSet :: bool
  isCleanedUp :: bool
  initTime :: "rat option"

subsection \<open>The frame clock\<close>

text \<open>What a frame callback does outside the closure, in the order of the source: the
  optional profiling hooks, the request for the next frame (\<^verbatim>\<open>loop\<close>), and the engine
  step with the corrected elapsed time.\<close>

datatype effect = StatsBegin | StatsEnd | RequestAnimationFrame | RunNextFrame rat

text \<open>\<^verbatim>\<open>handlePageVisible\<close>; the argument is \<^verbatim>\<open>document.hidden\<close> as the handler reads it.
  The calls on the audio context are left out.\<close>

definition handlePageVisible :: "bool \<Rightarrow> closure \<Rightarrow> closure" where
  "handlePageVisible hidden c =
     (let c1 = (if hidden \<and> isPageVisible c
                then c\<lparr>lastPageNotVisibleTime := lastTimeValue c\<rparr> else c);
          c2 = (if \<not> hidden \<and> \<not> isPageVisible c1
                then c1\<lparr>needsToUpdateNotVisibleTime := True\<rparr> else c1)
      in c2\<lparr>isPageVisible := \<not> hidden\<rparr>)"

text \<open>\<^verbatim>\<open>loop\<close>: the hook and the request for the next frame.\<close>

definition loop :: "effect list" where
  "loop = [StatsEnd, RequestAnimationFrame]"

text \<open>\<^verbatim>\<open>newWebFrame\<close>, with the literal \<^verbatim>\<open>1 / 60\<close> of the source. The arithmetic is exact
  here; \<open>newWebFrameRounded\<close> below is the same function with the rounding of the source.\<close>

definition newWebFrame :: "rat \<Rightarrow> closure \<Rightarrow> closure \<times> effect list" where
  "newWebFrame time c =
     (if isCleanedUp c then (c, [])
      else
        let i = (case initTime c of None \<Rightarrow> time - 1 / 60 | Some i0 \<Rightarrow> i0);
            c1 = c\<lparr>initTime := Some i\<rparr>
        in if \<not> isPageVisible c1 then (c1, StatsBegin # loop)
           else
             let c2 = (if needsToUpdateNotVisibleTime c1
                       then c1\<lparr>needsToUpdateNotVisibleTime := False,
                               totalPageNotVisibleTime :=
                                 totalPageNotVisibleTime c1 + (time - lastPageNotVisibleTime c1)\<rparr>
                       else c1);
                 c3 = c2\<lparr>lastTimeValue := time\<rparr>
             in (c3, StatsBegin # loop @ [RunNextFrame (time - i - totalPageNotVisibleTime c3)]))"

text \<open>The browser delivers animation frames and visibility changes one at a time.\<close>

datatype event = AnimationFrame rat | VisibilityChange bool

fun deliver :: "event \<Rightarrow> closure \<Rightarrow> closure \<times> effect list" where
  "deliver (AnimationFrame time) c = newWebFrame time c"
| "deliver (VisibilityChange hidden) c = (handlePageVisible hidden c, [])"

fun runEvents :: "closure \<Rightarrow> event list \<Rightarrow> effect list" where
  "runEvents c [] = []"
| "runEvents c (ev # evs) = (case deliver ev c of (c', effs) \<Rightarrow> effs @ runEvents c' evs)"


fun frameTimes :: "event list \<Rightarrow> rat list" where
  "frameTimes [] = []"
| "frameTimes (AnimationFrame time # evs) = time # frameTimes evs"
| "frameTimes (VisibilityChange hidden # evs) = frameTimes evs"

fun elapsedPassed :: "effect list \<Rightarrow> rat list" where
  "elapsedPassed [] = []"
| "elapsedPassed (RunNextFrame e # effs) = e # elapsedPassed effs"
| "elapsedPassed (eff # effs) = elapsedPassed effs"

text \<open>The variables as \<^verbatim>\<open>renderCanvas\<close> and \<^verbatim>\<open>launch\<close> initialise them; \<open>sz\<close> is the
  size \<^verbatim>\<open>mutDeviceCreator\<close> is given.\<close>

definition initialClosure :: "DeviceSize \<Rightarrow> closure" where
  "initialClosure sz =
     \<lparr>isInFocus = True, isPageVisible = True, lastTimeValue = 0,
      needsToUpdateNotVisibleTime = False, lastPageNotVisibleTime = 0,
      totalPageNotVisibleTime = 0, prevDeviceSize = None, pointerFns = 0,
      mutDevice_size = sz, resolution = 1, hasSet = False, isCleanedUp = False,
      initTime = None\<rparr>"

subsection \<open>The frame clock in binary64\<close>

text \<open>A JavaScript number is an IEEE 754 binary64 value, and \<^verbatim>\<open>-\<close> and \<^verbatim>\<open>+\<close> round the
  exact result to the nearest such value, a tie to the one with an even significand.
  \<open>round64\<close> is that rounding on the rationals: \<open>expo x\<close> is the exponent \<open>e\<close> with
  \<open>2 powi e \<le> \<bar>x\<bar> < 2 powi (e + 1)\<close>, \<open>e64\<close> holds it at the smallest normal exponent
  (below it the values are subnormal, all with the same spacing), and \<open>ulp64 x\<close> is the
  spacing of the values around \<open>x\<close>, 52 binary places below the leading one. Overflow to
  \<^verbatim>\<open>Infinity\<close> is not part of it.\<close>

definition expo :: "rat \<Rightarrow> int" where
  "expo x =
     (case quotient_of \<bar>x\<bar> of
        (p, q) \<Rightarrow>
          let e = bitlen p - bitlen q
          in if 2 powi e \<le> \<bar>x\<bar> then e else e - 1)"

definition e64 :: "rat \<Rightarrow> int" where
  "e64 x = max (expo x) (- 1022)"

definition ulp64 :: "rat \<Rightarrow> rat" where
  "ulp64 x = 2 powi (e64 x - 52)"



text \<open>\<^verbatim>\<open>newWebFrame\<close> once more, with every arithmetic result of the source passed through
  \<open>rnd\<close>: the quotient \<^verbatim>\<open>1 / 60\<close>, the difference \<^verbatim>\<open>time - 1 / 60\<close>, the difference
  \<^verbatim>\<open>time - lastPageNotVisibleTime\<close> and the sum of \<^verbatim>\<open>+=\<close>, and the two differences of
  \<^verbatim>\<open>time - initTime - totalPageNotVisibleTime\<close>, from left to right. With \<open>round64\<close> for
  \<open>rnd\<close> it computes what the source computes; with the identity it is \<open>newWebFrame\<close>.\<close>

definition newWebFrameRounded ::
  "(rat \<Rightarrow> rat) \<Rightarrow> rat \<Rightarrow> closure \<Rightarrow> closure \<times> effect list" where
  "newWebFrameRounded rnd time c =
     (if isCleanedUp c then (c, [])
      else
        let i = (case initTime c of None \<Rightarrow> rnd (time - rnd (1 / 60)) | Some i0 \<Rightarrow> i0);
            c1 = c\<lparr>initTime := Some i\<rparr>
        in if \<not> isPageVisible c1 then (c1, StatsBegin # loop)
           else
             let c2 = (if needsToUpdateNotVisibleTime c1
                       then c1\<lparr>needsToUpdateNotVisibleTime := False,
                               totalPageNotVisibleTime :=
                                 rnd (totalPageNotVisibleTime c1
                                        + rnd (time - lastPageNotVisibleTime c1))\<rparr>
                       else c1);
                 c3 = c2\<lparr>lastTimeValue := time\<rparr>
             in (c3, StatsBegin # loop @
                       [RunNextFrame (rnd (rnd (time - i) - totalPageNotVisibleTime c3))]))"




subsection \<open>The page and the options\<close>

text \<open>Event listeners are compared by event target, event type and function object, as
  \<^verbatim>\<open>removeEventListener\<close> does. \<open>PointerDownFn n\<close> is the function object that the
  \<open>n\<close>-th assignment stored in the variable \<^verbatim>\<open>pointerDown\<close>, and likewise for the other
  three; \<open>InputKeyDownHandlerFn\<close> and \<open>InputKeyUpHandlerFn\<close> are the handlers imported from
  \<^verbatim>\<open>./input\<close>, which \<open>KeyDownHandlerFn\<close> and \<open>KeyUpHandlerFn\<close> wrap.\<close>

datatype target = Document | Window

datatype listenerFn =
    KeyDownHandlerFn | KeyUpHandlerFn | InputKeyDownHandlerFn | InputKeyUpHandlerFn
  | HandlePageVisibleFn | UpdateDeviceSizeFn | UpdateScrollFn | ContextMenuFn
  | OnFirstInteractionFn
  | PointerDownFn nat | PointerMoveFn nat | PointerUpFn nat | PointerCancelFn nat

type_synonym listener = "target \<times> string \<times> listenerFn"

text \<open>What the closure changes outside itself: the registered listeners, the number of
  \<^verbatim>\<open>requestAnimationFrame\<close> calls made, the number of \<^verbatim>\<open>setTimeout(launch, 50)\<close> calls
  made, whether the canvas is a child of the document body, the size of the canvas buffer,
  and the item \<^verbatim>\<open>RESOLUTION_KEY\<close> of the store.\<close>

record browser =
  listeners :: "listener list"
  animationFrameRequests :: nat
  launchTimeouts :: nat
  canvasInBody :: bool
  canvas_width :: int
  canvas_height :: int
  storedResolution :: "string option"

text \<open>What \<^verbatim>\<open>renderCanvas\<close> is given and what it finds on the page, fixed for the life of
  the closure. \<^verbatim>\<open>calculateDeviceSize\<close> lives in \<^verbatim>\<open>./size\<close>, which is not part of the
  sources at hand: it is a parameter here, already applied to \<^verbatim>\<open>dimensions\<close> and to
  \<^verbatim>\<open>gameSprite.props.size\<close>. \<open>toNumber\<close> and \<open>toString\<close> stand for JavaScript's
  \<^verbatim>\<open>Number\<close> on strings (\<open>None\<close> for \<^verbatim>\<open>NaN\<close>) and \<^verbatim>\<open>String\<close> on numbers.\<close>

record settings =
  calculateDeviceSize :: "rat \<Rightarrow> rat \<Rightarrow> DeviceSize"
  windowSize :: "(rat \<times> rat) option"
  userCanvas :: bool
  imageResolution :: "rat option"
  maxPixels :: "rat option"
  windowPointerEvent :: bool
  webgl :: bool
  angleInstancedArrays :: bool
  oesVertexArrayObject :: bool
  toNumber :: "string \<Rightarrow> rat option"
  toString :: "rat \<Rightarrow> string"

text \<open>What the window reports when it is read.\<close>

record viewport =
  innerWidth :: rat
  innerHeight :: rat
  devicePixelRatio :: rat

definition pointerDownEv :: "settings \<Rightarrow> string" where
  "pointerDownEv su = (if windowPointerEvent su then ''pointerdown'' else ''touchstart'')"

definition pointerMoveEv :: "settings \<Rightarrow> string" where
  "pointerMoveEv su = (if windowPointerEvent su then ''pointermove'' else ''touchmove'')"

definition pointerUpEv :: "settings \<Rightarrow> string" where
  "pointerUpEv su = (if windowPointerEvent su then ''pointerup'' else ''touchend'')"

definition pointerCancelEv :: "settings \<Rightarrow> string" where
  "pointerCancelEv su = (if windowPointerEvent su then ''pointercancel'' else ''touchcancel'')"

text \<open>The default \<^verbatim>\<open>imageResolution = 3\<close> of the destructuring.\<close>

definition imageResolutionOf :: "settings \<Rightarrow> rat" where
  "imageResolutionOf su = (case imageResolution su of None \<Rightarrow> 3 | Some r \<Rightarrow> r)"

text \<open>\<^verbatim>\<open>windowSize?.width || window.innerWidth\<close> and its twin: \<^verbatim>\<open>0\<close> is falsy.\<close>

definition viewWidth :: "settings \<Rightarrow> viewport \<Rightarrow> rat" where
  "viewWidth su vp =
     (case windowSize su of
        None \<Rightarrow> innerWidth vp
      | Some (w, h) \<Rightarrow> if w \<noteq> 0 then w else innerWidth vp)"

definition viewHeight :: "settings \<Rightarrow> viewport \<Rightarrow> rat" where
  "viewHeight su vp =
     (case windowSize su of
        None \<Rightarrow> innerHeight vp
      | Some (w, h) \<Rightarrow> if h \<noteq> 0 then h else innerHeight vp)"

definition calculatedSize :: "settings \<Rightarrow> viewport \<Rightarrow> DeviceSize" where
  "calculatedSize su vp = calculateDeviceSize su (viewWidth su vp) (viewHeight su vp)"

text \<open>\<^verbatim>\<open>addEventListener\<close> ignores a listener that is registered already;
  \<^verbatim>\<open>removeEventListener\<close> removes the listener with that very function object, if any.\<close>

definition addEventListener :: "target \<Rightarrow> string \<Rightarrow> listenerFn \<Rightarrow> browser \<Rightarrow> browser" where
  "addEventListener tg ty fn b =
     (if (tg, ty, fn) \<in> set (listeners b) then b
      else b\<lparr>listeners := listeners b @ [(tg, ty, fn)]\<rparr>)"

definition removeEventListener :: "target \<Rightarrow> string \<Rightarrow> listenerFn \<Rightarrow> browser \<Rightarrow> browser" where
  "removeEventListener tg ty fn b = b\<lparr>listeners := removeAll (tg, ty, fn) (listeners b)\<rparr>"

subsection \<open>\<^verbatim>\<open>updateDeviceSize\<close>\<close>

text \<open>The argument: none, an options object (\<^verbatim>\<open>cleanup\<close>, \<^verbatim>\<open>didScroll\<close>; a field that is
  absent reads as false), or the \<^verbatim>\<open>Event\<close> the resize listener is called with, which has
  neither field.\<close>

datatype updateArg = NoArg | Opts bool bool | BrowserEvent

fun cleanupOf :: "updateArg \<Rightarrow> bool" where
  "cleanupOf (Opts cleanup didScroll) = cleanup"
| "cleanupOf arg = False"

fun didScrollOf :: "updateArg \<Rightarrow> bool" where
  "didScrollOf (Opts cleanup didScroll) = didScroll"
| "didScrollOf arg = False"

definition removePointerListeners :: "settings \<Rightarrow> closure \<Rightarrow> browser \<Rightarrow> browser" where
  "removePointerListeners su c b =
     removeEventListener Document (pointerCancelEv su) (PointerCancelFn (pointerFns c))
       (removeEventListener Document (pointerUpEv su) (PointerUpFn (pointerFns c))
         (removeEventListener Document (pointerMoveEv su) (PointerMoveFn (pointerFns c))
           (removeEventListener Document (pointerDownEv su) (PointerDownFn (pointerFns c)) b)))"

definition addPointerListeners :: "settings \<Rightarrow> nat \<Rightarrow> browser \<Rightarrow> browser" where
  "addPointerListeners su n b =
     addEventListener Document (pointerCancelEv su) (PointerCancelFn n)
       (addEventListener Document (pointerUpEv su) (PointerUpFn n)
         (addEventListener Document (pointerMoveEv su) (PointerMoveFn n)
           (addEventListener Document (pointerDownEv su) (PointerDownFn n) b)))"

text \<open>``Don't update device size on scroll as window gets smaller''.\<close>

definition recomputeSize :: "settings \<Rightarrow> viewport \<Rightarrow> updateArg \<Rightarrow> closure \<Rightarrow> closure" where
  "recomputeSize su vp arg c =
     (if \<not> (didScrollOf arg \<and> prevDeviceSize c \<noteq> None)
      then c\<lparr>mutDevice_size := calculatedSize su vp\<rparr> else c)"

text \<open>\<^verbatim>\<open>canvasWidth\<close> and \<^verbatim>\<open>canvasHeight\<close>. \<^verbatim>\<open>Math.round\<close> rounds to the nearest integer, a
  half upwards, as \<^const>\<open>round\<close> does.\<close>

definition canvasSize :: "settings \<Rightarrow> viewport \<Rightarrow> closure \<Rightarrow> int \<times> int" where
  "canvasSize su vp c =
     (let sz = mutDevice_size c;
          dpr = (if devicePixelRatio vp \<noteq> 0 then devicePixelRatio vp else 1);
          canvasWidthDevice = deviceWidth sz * dpr * resolution c;
          canvasWidthGame = fullWidth sz * imageResolutionOf su
      in if canvasWidthDevice > canvasWidthGame
         then (round canvasWidthGame, round (fullHeight sz * imageResolutionOf su))
         else (round canvasWidthDevice, round (deviceHeight sz * dpr * resolution c)))"

text \<open>The test that guards the automatic step-down; \<^verbatim>\<open>maxPixels\<close> is truthy when it is
  given and not \<^verbatim>\<open>0\<close>.\<close>

definition needsStepDown :: "settings \<Rightarrow> closure \<Rightarrow> int \<times> int \<Rightarrow> bool" where
  "needsStepDown su c wh =
     (case maxPixels su of
        None \<Rightarrow> False
      | Some m \<Rightarrow> m \<noteq> 0 \<and> \<not> hasSet c \<and> of_int (fst wh * snd wh) > m \<and> resolution c > 15 / 100)"

text \<open>The tail of a full run: the canvas buffer gets its size, fresh pointer functions are
  registered. The render functions, the coordinate transforms and \<^verbatim>\<open>nativeSpriteUtils\<close>
  are rebuilt by collaborators outside this file and are not part of the state here.\<close>

definition publish :: "settings \<Rightarrow> int \<times> int \<Rightarrow> nat \<Rightarrow> browser \<Rightarrow> browser" where
  "publish su wh n b = addPointerListeners su n (b\<lparr>canvas_width := fst wh, canvas_height := snd wh\<rparr>)"

function updateDeviceSize ::
  "settings \<Rightarrow> viewport \<Rightarrow> updateArg \<Rightarrow> browser \<times> closure \<Rightarrow> browser \<times> closure" where
  "updateDeviceSize su vp arg (b, c) =
     (let b1 = (if prevDeviceSize c \<noteq> None then removePointerListeners su c b else b)
      in if prevDeviceSize c \<noteq> None \<and> cleanupOf arg then (b1, c)
         else
           let c1 = recomputeSize su vp arg c;
               wh = canvasSize su vp c1
           in if needsStepDown su c1 wh
              then updateDeviceSize su vp NoArg (b1, c1\<lparr>resolution := resolution c1 - 1 / 10\<rparr>)
              else (publish su wh (Suc (pointerFns c1)) b1,
                    c1\<lparr>pointerFns := Suc (pointerFns c1),
                       prevDeviceSize := Some (mutDevice_size c1)\<rparr>))"
  by pat_completeness auto
termination
proof (relation "measure (\<lambda>(su, vp, arg, b, c). nat \<lceil>10 * resolution c\<rceil>)")
  show "wf (measure (\<lambda>(su, vp, arg, b, c). nat \<lceil>10 * resolution c\<rceil>))"
    by simp
next
  fix su :: settings and vp :: viewport and arg :: updateArg and b :: browser and c :: closure
    and b1 c1 wh
  assume c1: "c1 = recomputeSize su vp arg c"
    and step: "needsStepDown su c1 wh"
  have res: "resolution c1 = resolution c"
    using c1 by (simp add: recomputeSize_def)
  have "15 / 100 < resolution c"
    using step res by (auto simp: needsStepDown_def split: option.splits)
  then have "2 \<le> \<lceil>10 * resolution c\<rceil>"
    by (simp add: le_ceiling_iff)
  moreover have "\<lceil>10 * (resolution c - 1 / 10)\<rceil> = \<lceil>10 * resolution c\<rceil> - 1"
    by (simp add: algebra_simps)
  ultimately show
    "((su, vp, NoArg, b1, c1\<lparr>resolution := resolution c1 - 1 / 10\<rparr>), (su, vp, arg, b, c))
       \<in> measure (\<lambda>(su, vp, arg, b, c). nat \<lceil>10 * resolution c\<rceil>)"
    using res by simp
qed

declare updateDeviceSize.simps [simp del]

subsection \<open>The resolution\<close>

text \<open>\<^verbatim>\<open>mutResolution.set\<close>.\<close>

definition setResolution ::
  "settings \<Rightarrow> viewport \<Rightarrow> rat \<Rightarrow> browser \<times> closure \<Rightarrow> browser \<times> closure" where
  "setResolution su vp r bc =
     (case updateDeviceSize su vp NoArg (fst bc, (snd bc)\<lparr>resolution := r, hasSet := True\<rparr>) of
        (b1, c1) \<Rightarrow> (b1\<lparr>storedResolution := Some (toString su r)\<rparr>, c1))"

text \<open>The callback on \<^verbatim>\<open>mutDevice.storage.getItem(RESOLUTION_KEY)\<close>; \<open>item\<close> is what the
  promise resolves to, \<open>None\<close> for \<^verbatim>\<open>null\<close>.\<close>

definition storageLoaded ::
  "settings \<Rightarrow> viewport \<Rightarrow> string option \<Rightarrow> browser \<times> closure \<Rightarrow> browser \<times> closure" where
  "storageLoaded su vp item bc =
     (case item of
        None \<Rightarrow> bc
      | Some v \<Rightarrow>
          (case toNumber su v of
             None \<Rightarrow> bc
           | Some r \<Rightarrow> setResolution su vp r bc))"

text \<open>What can reach the resolution after startup: an invocation of
  \<^verbatim>\<open>updateDeviceSize\<close> (by the resize listener, the scroll listener, \<^verbatim>\<open>launch\<close> or
  \<^verbatim>\<open>cleanup\<close>) and a call of \<^verbatim>\<open>resolution.set\<close>, each with the window as it is then.\<close>

datatype call = Update viewport updateArg | SetResolution viewport rat

fun perform :: "settings \<Rightarrow> call \<Rightarrow> browser \<times> closure \<Rightarrow> browser \<times> closure" where
  "perform su (Update vp arg) bc = updateDeviceSize su vp arg bc"
| "perform su (SetResolution vp r) bc = setResolution su vp r bc"

fun performAll :: "settings \<Rightarrow> call list \<Rightarrow> browser \<times> closure \<Rightarrow> browser \<times> closure" where
  "performAll su [] bc = bc"
| "performAll su (cl # cls) bc = performAll su cls (perform su cl bc)"

text \<open>The value of the last \<^verbatim>\<open>resolution.set\<close> among the calls, \<open>r\<close> when there is none.\<close>

fun lastSet :: "rat \<Rightarrow> call list \<Rightarrow> rat" where
  "lastSet r [] = r"
| "lastSet r (SetResolution vp r' # cls) = lastSet r' cls"
| "lastSet r (Update vp arg # cls) = lastSet r cls"

subsection \<open>Startup and cleanup\<close>

datatype error = Error string

text \<open>\<^verbatim>\<open>launch\<close>: a zero viewport defers it by a timeout; otherwise the size is computed and
  \<^verbatim>\<open>loop\<close> requests the first frame.\<close>

definition launch :: "settings \<Rightarrow> viewport \<Rightarrow> browser \<times> closure \<Rightarrow> browser \<times> closure" where
  "launch su vp bc =
     (if viewWidth su vp = 0 \<or> viewHeight su vp = 0
      then ((fst bc)\<lparr>launchTimeouts := Suc (launchTimeouts (fst bc))\<rparr>, snd bc)
      else case updateDeviceSize su vp NoArg bc of
             (b1, c1) \<Rightarrow> (b1\<lparr>animationFrameRequests := Suc (animationFrameRequests b1)\<rparr>, c1))"

text \<open>The listeners \<^verbatim>\<open>renderCanvas\<close> registers itself, in the order of the source.\<close>

definition addStartupListeners :: "browser \<Rightarrow> browser" where
  "addStartupListeners b =
     addEventListener Document ''contextmenu'' ContextMenuFn
       (addEventListener Window ''scroll'' UpdateScrollFn
         (addEventListener Window ''resize'' UpdateDeviceSizeFn
           (addEventListener Document ''visibilitychange'' HandlePageVisibleFn
             (addEventListener Document ''keyup'' KeyUpHandlerFn
               (addEventListener Document ''keydown'' KeyDownHandlerFn b)))))"

definition addFirstInteractionListeners :: "settings \<Rightarrow> browser \<Rightarrow> browser" where
  "addFirstInteractionListeners su b =
     addEventListener Document (pointerDownEv su) OnFirstInteractionFn
       (addEventListener Document ''keydown'' OnFirstInteractionFn b)"

text \<open>\<^verbatim>\<open>renderCanvas\<close> up to its \<^verbatim>\<open>return\<close>. The read of the store is pending when it
  returns; \<open>storageLoaded\<close> is its callback.\<close>

definition renderCanvas :: "settings \<Rightarrow> viewport \<Rightarrow> browser \<Rightarrow> browser \<times> (error + closure)" where
  "renderCanvas su vp b =
     (let b1 = (if \<not> userCanvas su then b\<lparr>canvasInBody := True\<rparr> else b)
      in if \<not> webgl su then (b1, Inl (Error ''WebGL not supported''))
         else if \<not> angleInstancedArrays su then (b1, Inl (Error ''WebGL instancing not supported''))
         else if \<not> oesVertexArrayObject su then (b1, Inl (Error ''WebGL VAO not supported''))
         else
           let b2 = addStartupListeners b1;
               c = initialClosure (calculatedSize su vp);
               b3 = addFirstInteractionListeners su b2
           in case launch su vp (b3, c) of (b4, c4) \<Rightarrow> (b4, Inr c4))"

text \<open>\<^verbatim>\<open>cleanup\<close>. The first two removals name the imported handlers, as the source does.\<close>

definition cleanup :: "settings \<Rightarrow> viewport \<Rightarrow> browser \<times> closure \<Rightarrow> browser \<times> closure" where
  "cleanup su vp bc =
     (let b1 = (if \<not> userCanvas su then (fst bc)\<lparr>canvasInBody := False\<rparr> else fst bc);
          c1 = (snd bc)\<lparr>isCleanedUp := True\<rparr>;
          b2 = removeEventListener Window ''scroll'' UpdateScrollFn
                 (removeEventListener Window ''resize'' UpdateDeviceSizeFn
                   (removeEventListener Document ''visibilitychange'' HandlePageVisibleFn
                     (removeEventListener Document ''keyup'' InputKeyUpHandlerFn
                       (removeEventListener Document ''keydown'' InputKeyDownHandlerFn b1))))
      in updateDeviceSize su vp (Opts True False) (b2, c1))"

subsection \<open>Releasing a pointer\<close>

text \<open>A touch of \<^verbatim>\<open>changedTouches\<close>, with the fields the handlers read.\<close>

record touch =
  screenX :: rat
  screenY :: rat
  touch_identifier :: int

text \<open>A pointer event carries \<^verbatim>\<open>clientX\<close>, \<^verbatim>\<open>clientY\<close> and \<^verbatim>\<open>pointerId\<close>; a touch event
  is the one with \<^verbatim>\<open>changedTouches\<close>.\<close>

datatype pointerEvent = PointerEvent rat rat int | TouchEvent "touch list"

text \<open>The calls into \<^verbatim>\<open>./input\<close>.\<close>

datatype inputCall = PointerUpHandler rat rat int | PointerCancelHandler int

definition isPointerOutsideGame :: "DeviceSize \<Rightarrow> rat \<Rightarrow> rat \<Rightarrow> bool" where
  "isPointerOutsideGame sz x y =
     (x > width sz / 2 + widthMargin sz \<or>
      x < - width sz / 2 - widthMargin sz \<or>
      y > height sz / 2 + heightMargin sz \<or>
      y < - height sz / 2 - heightMargin sz)"

text \<open>The loop over \<^verbatim>\<open>e.changedTouches\<close> of \<^verbatim>\<open>pointerUp\<close>. \<open>getX\<close> and \<open>getY\<close> are the
  transforms that \<^verbatim>\<open>clientXToGameX\<close> and \<^verbatim>\<open>clientYToGameY\<close> of \<^verbatim>\<open>./input\<close> built for
  this run; \<open>calls\<close> collects the calls made so far.\<close>

fun pointerUpTouches ::
  "(rat \<Rightarrow> rat) \<Rightarrow> (rat \<Rightarrow> rat) \<Rightarrow> DeviceSize \<Rightarrow> touch list \<Rightarrow> inputCall list \<Rightarrow> inputCall list" where
  "pointerUpTouches getX getY sz [] calls = calls"
| "pointerUpTouches getX getY sz (t # ts) calls =
     (let x = getX (screenX t); y = getY (screenY t)
      in if isPointerOutsideGame sz x y
         then pointerUpTouches getX getY sz ts (calls @ [PointerCancelHandler (touch_identifier t)])
         else pointerUpTouches getX getY sz ts (calls @ [PointerUpHandler x y (touch_identifier t)]))"

definition pointerUp ::
  "(rat \<Rightarrow> rat) \<Rightarrow> (rat \<Rightarrow> rat) \<Rightarrow> DeviceSize \<Rightarrow> pointerEvent \<Rightarrow> inputCall list" where
  "pointerUp getX getY sz e =
     (case e of
        TouchEvent changedTouches \<Rightarrow> pointerUpTouches getX getY sz changedTouches []
      | PointerEvent clientX clientY pointerId \<Rightarrow>
          (let x = getX clientX; y = getY clientY
           in if isPointerOutsideGame sz x y then [PointerCancelHandler pointerId]
              else [PointerUpHandler x y pointerId]))"

text \<open>The release of one point as the dispatcher is described: a cancel for the identifier
  when the converted point is out of bounds, a normal up with the converted coordinates
  otherwise.\<close>

definition releaseOf :: "DeviceSize \<Rightarrow> rat \<Rightarrow> rat \<Rightarrow> int \<Rightarrow> inputCall" where
  "releaseOf sz x y ident =
     (if isPointerOutsideGame sz x y then PointerCancelHandler ident
      else PointerUpHandler x y ident)"

subsection \<open>Instances for the examples\<close>

text \<open>A size calculation that fills the viewport, without margins; it stands in for
  \<^verbatim>\<open>calculateDeviceSize\<close> in the examples only.\<close>

definition fillViewport :: "rat \<Rightarrow> rat \<Rightarrow> DeviceSize" where
  "fillViewport w h =
     \<lparr>width = w, height = h, widthMargin = 0, heightMargin = 0,
      deviceWidth = w, deviceHeight = h, fullWidth = w, fullHeight = h\<rparr>"

text \<open>\<open>exampleNumber\<close> and \<open>exampleString\<close> agree with \<^verbatim>\<open>Number\<close> and \<^verbatim>\<open>String\<close> on the
  values the examples use: \<^verbatim>\<open>Number("0.5")\<close> is \<^verbatim>\<open>0.5\<close>, \<^verbatim>\<open>Number("abc")\<close> is \<^verbatim>\<open>NaN\<close>,
  \<^verbatim>\<open>String(0.5)\<close> is \<^verbatim>\<open>"0.5"\<close>.\<close>

definition exampleNumber :: "string \<Rightarrow> rat option" where
  "exampleNumber s = (if s = ''0.5'' then Some (1 / 2) else None)"

definition exampleString :: "rat \<Rightarrow> string" where
  "exampleString r = (if r = 1 / 2 then ''0.5'' else ''?'')"

definition exampleSettings :: settings where
  "exampleSettings =
     \<lparr>calculateDeviceSize = fillViewport, windowSize = None, userCanvas = False,
      imageResolution = None, maxPixels = Some 100000, windowPointerEvent = True,
      webgl = True, angleInstancedArrays = True, oesVertexArrayObject = True,
      toNumber = exampleNumber, toString = exampleString\<rparr>"

definition emptyBrowser :: browser where
  "emptyBrowser =
     \<lparr>listeners = [], animationFrameRequests = 0, launchTimeouts = 0, canvasInBody = False,
      canvas_width = 300, canvas_height = 150, storedResolution = None\<rparr>"

definition exampleViewport :: "rat \<Rightarrow> rat \<Rightarrow> rat \<Rightarrow> viewport" where
  "exampleViewport w h dpr = \<lparr>innerWidth = w, innerHeight = h, devicePixelRatio = dpr\<rparr>"

subsection \<open>Derived notions\<close>

text \<open>The step-down test on a state, with the canvas size the function computes for it.\<close>

definition stepDownDue :: "settings \<Rightarrow> viewport \<Rightarrow> closure \<Rightarrow> bool" where
  "stepDownDue su vp c = needsStepDown su c (canvasSize su vp c)"

text \<open>The clock knows where the current hidden interval began: either no interval is open,
  or it began at the last frame that ran.\<close>

definition gapKnown :: "closure \<Rightarrow> bool" where
  "gapKnown c =
     ((isPageVisible c \<and> \<not> needsToUpdateNotVisibleTime c) \<or>
      lastPageNotVisibleTime c = lastTimeValue c)"

section \<open>Properties\<close>

subsection \<open>The frame clock\<close>

lemma elapsedPassed_append:
  "elapsedPassed (xs @ ys) = elapsedPassed xs @ elapsedPassed ys"
  by (induction xs rule: elapsedPassed.induct) simp_all

lemma handlePageVisible_keeps:
  "gapKnown c \<Longrightarrow> gapKnown (handlePageVisible hidden c)"
  "lastTimeValue (handlePageVisible hidden c) = lastTimeValue c"
  "initTime (handlePageVisible hidden c) = initTime c"
  "totalPageNotVisibleTime (handlePageVisible hidden c) = totalPageNotVisibleTime c"
  by (auto simp: gapKnown_def handlePageVisible_def Let_def)

text \<open>A frame callback either passes nothing to the engine and leaves the clock's
  accounting alone, or it runs the engine with \<open>time - initTime - total\<close> and closes the
  hidden interval; in the second case the value is not below the one of the last frame
  that ran, when the raw time is not.\<close>

lemma newWebFrame_cases:
  assumes "newWebFrame t c = (c', effs)"
  shows "(elapsedPassed effs = [] \<and> lastTimeValue c' = lastTimeValue c
            \<and> totalPageNotVisibleTime c' = totalPageNotVisibleTime c
            \<and> (gapKnown c \<longrightarrow> gapKnown c')
            \<and> (initTime c \<noteq> None \<longrightarrow> initTime c' = initTime c))
       \<or> (\<exists>i. initTime c' = Some i \<and> (initTime c \<noteq> None \<longrightarrow> initTime c = Some i)
            \<and> gapKnown c' \<and> lastTimeValue c' = t
            \<and> elapsedPassed effs = [t - i - totalPageNotVisibleTime c']
            \<and> (gapKnown c \<longrightarrow> lastTimeValue c \<le> t \<longrightarrow>
                 lastTimeValue c - i - totalPageNotVisibleTime c
                   \<le> t - i - totalPageNotVisibleTime c'))"
  using assms
  by (auto simp: newWebFrame_def Let_def loop_def gapKnown_def split: if_splits option.splits)

text \<open>In exact arithmetic the elapsed times are non-decreasing over every sequence with
  non-decreasing raw times: the first frame after a regain repeats the value of the last
  frame that ran.\<close>

lemma runEvents_bounded:
  assumes "initTime c = Some i" and "gapKnown c" and "sorted (frameTimes evs)"
    and "\<forall>t\<in>set (frameTimes evs). lastTimeValue c \<le> t"
  shows "sorted (elapsedPassed (runEvents c evs)) \<and>
         (\<forall>e\<in>set (elapsedPassed (runEvents c evs)).
            lastTimeValue c - i - totalPageNotVisibleTime c \<le> e)"
  using assms
proof (induction evs arbitrary: c)
  case Nil
  then show ?case by simp
next
  case (Cons ev evs)
  show ?case
  proof (cases ev)
    case (VisibilityChange hidden)
    let ?c = "handlePageVisible hidden c"
    have "sorted (elapsedPassed (runEvents ?c evs)) \<and>
         (\<forall>e\<in>set (elapsedPassed (runEvents ?c evs)).
            lastTimeValue ?c - i - totalPageNotVisibleTime ?c \<le> e)"
      using Cons.prems VisibilityChange
      by (intro Cons.IH) (simp_all add: handlePageVisible_keeps)
    then show ?thesis
      using VisibilityChange by (simp add: handlePageVisible_keeps)
  next
    case (AnimationFrame t)
    obtain c' effs where nf: "newWebFrame t c = (c', effs)"
      by (cases "newWebFrame t c")
    have srt: "sorted (frameTimes evs)" and le: "\<forall>u\<in>set (frameTimes evs). t \<le> u"
      and tle: "lastTimeValue c \<le> t"
      using Cons.prems AnimationFrame by auto
    from newWebFrame_cases [OF nf] show ?thesis
    proof (elim disjE exE conjE)
      assume a: "elapsedPassed effs = []" "lastTimeValue c' = lastTimeValue c"
        "totalPageNotVisibleTime c' = totalPageNotVisibleTime c"
        "gapKnown c \<longrightarrow> gapKnown c'" "initTime c \<noteq> None \<longrightarrow> initTime c' = initTime c"
      have "sorted (elapsedPassed (runEvents c' evs)) \<and>
         (\<forall>e\<in>set (elapsedPassed (runEvents c' evs)).
            lastTimeValue c' - i - totalPageNotVisibleTime c' \<le> e)"
        using Cons.prems AnimationFrame a srt by (intro Cons.IH) auto
      then show ?thesis
        using AnimationFrame nf a by (simp add: elapsedPassed_append)
    next
      fix j
      assume a: "initTime c' = Some j" "initTime c \<noteq> None \<longrightarrow> initTime c = Some j"
        "gapKnown c'" "lastTimeValue c' = t"
        "elapsedPassed effs = [t - j - totalPageNotVisibleTime c']"
        "gapKnown c \<longrightarrow> lastTimeValue c \<le> t \<longrightarrow>
           lastTimeValue c - j - totalPageNotVisibleTime c \<le> t - j - totalPageNotVisibleTime c'"
      have ji: "j = i" using a(2) Cons.prems(1) by simp
      have ih: "sorted (elapsedPassed (runEvents c' evs)) \<and>
         (\<forall>e\<in>set (elapsedPassed (runEvents c' evs)).
            lastTimeValue c' - i - totalPageNotVisibleTime c' \<le> e)"
        using a ji srt le by (intro Cons.IH) auto
      have step: "lastTimeValue c - i - totalPageNotVisibleTime c
                    \<le> t - i - totalPageNotVisibleTime c'"
        using a(6) ji Cons.prems(2) tle by simp
      show ?thesis
        using AnimationFrame nf a ih step ji
        by (auto simp: elapsedPassed_append)
    qed
  qed
qed

lemma runEvents_sorted:
  "sorted (frameTimes evs) \<Longrightarrow> sorted (elapsedPassed (runEvents c evs))"
proof (induction evs arbitrary: c)
  case Nil
  then show ?case by simp
next
  case (Cons ev evs)
  show ?case
  proof (cases ev)
    case (VisibilityChange hidden)
    then show ?thesis using Cons by simp
  next
    case (AnimationFrame t)
    obtain c' effs where nf: "newWebFrame t c = (c', effs)"
      by (cases "newWebFrame t c")
    have srt: "sorted (frameTimes evs)" and le: "\<forall>u\<in>set (frameTimes evs). t \<le> u"
      using Cons.prems AnimationFrame by auto
    from newWebFrame_cases [OF nf] show ?thesis
    proof (elim disjE exE conjE)
      assume "elapsedPassed effs = []"
      then show ?thesis
        using AnimationFrame nf Cons.IH [OF srt, of c'] by (simp add: elapsedPassed_append)
    next
      fix j
      assume a: "initTime c' = Some j" "gapKnown c'" "lastTimeValue c' = t"
        "elapsedPassed effs = [t - j - totalPageNotVisibleTime c']"
      have "sorted (elapsedPassed (runEvents c' evs)) \<and>
         (\<forall>e\<in>set (elapsedPassed (runEvents c' evs)).
            lastTimeValue c' - j - totalPageNotVisibleTime c' \<le> e)"
        using a srt le by (intro runEvents_bounded) auto
      then show ?thesis
        using AnimationFrame nf a by (auto simp: elapsedPassed_append)
    qed
  qed
qed

lemma newWebFrame_hidden:
  "\<not> isPageVisible c \<Longrightarrow> elapsedPassed (snd (newWebFrame time c)) = []"
  by (simp add: newWebFrame_def Let_def loop_def)








text \<open>On a clock as \<^verbatim>\<open>renderCanvas\<close> creates it, the first frame callback fixes
  \<open>initTime\<close> at the raw time less \<^verbatim>\<open>1 / 60\<close> and passes \<^verbatim>\<open>1 / 60\<close> to the engine.\<close>

lemma first_frame_on_fresh_clock:
  "initTime (fst (newWebFrame t (initialClosure sz))) = Some (t - 1 / 60)"
  "elapsedPassed (snd (newWebFrame t (initialClosure sz))) = [1 / 60]"
  by (simp_all add: initialClosure_def newWebFrame_def Let_def loop_def)

text \<open>
  \<^bold>\<open>C5.\<close> The claim wants the first elapsed time passed to \<^verbatim>\<open>runNextFrame\<close> to be one
  frame interval, \<^verbatim>\<open>1 / 60\<close>. When the page is hidden and shown again before the first
  frame callback, the code passes \<^verbatim>\<open>1 / 60\<close> less the raw time of that frame: the start of
  the hidden interval is taken from \<open>lastTimeValue\<close>, which is still its initial \<open>0\<close>.
\<close>

theorem first_elapsed_after_early_hide:
  "elapsedPassed (runEvents (initialClosure (fillViewport 800 600))
     [VisibilityChange True, VisibilityChange False, AnimationFrame 5000])
   = [1 / 60 - 5000]"
  by (simp add: initialClosure_def handlePageVisible_def newWebFrame_def Let_def loop_def)

subsection \<open>Rounding to binary64\<close>




lemma expo_uminus [simp]: "expo (- x) = expo x"
  by (simp add: expo_def)




lemma ulp64_pos [simp]: "0 < ulp64 x"
  by (simp add: ulp64_def)














subsection \<open>The frame clock in binary64\<close>

text \<open>Without rounding, the rounded clock is the exact one.\<close>

lemma newWebFrameRounded_exact: "newWebFrameRounded (\<lambda>x. x) time c = newWebFrame time c"
  by (simp add: newWebFrameRounded_def newWebFrame_def)










subsection \<open>\<^verbatim>\<open>updateDeviceSize\<close>: the three ways through it\<close>

lemma stepDownDue_cong:
  assumes "mutDevice_size x = mutDevice_size y" and "resolution x = resolution y"
    and "hasSet x = hasSet y"
  shows "stepDownDue su vp x = stepDownDue su vp y"
proof -
  have "canvasSize su vp x = canvasSize su vp y"
    unfolding canvasSize_def assms ..
  then show ?thesis
    unfolding stepDownDue_def needsStepDown_def assms by (simp split: option.splits)
qed

lemma stepDownDue_resolution: "stepDownDue su vp c \<Longrightarrow> 15 / 100 < resolution c"
  by (auto simp: stepDownDue_def needsStepDown_def split: option.splits)

lemma stepDownDue_hasSet: "stepDownDue su vp c \<Longrightarrow> \<not> hasSet c"
  by (auto simp: stepDownDue_def needsStepDown_def split: option.splits)

lemma recomputeSize_fields [simp]:
  "resolution (recomputeSize su vp arg c) = resolution c"
  "hasSet (recomputeSize su vp arg c) = hasSet c"
  "prevDeviceSize (recomputeSize su vp arg c) = prevDeviceSize c"
  "pointerFns (recomputeSize su vp arg c) = pointerFns c"
  "isCleanedUp (recomputeSize su vp arg c) = isCleanedUp c"
  by (simp_all add: recomputeSize_def)

text \<open>The early return of \<^verbatim>\<open>cleanup\<close>, the recursive call after a step-down, and the full
  run.\<close>

lemma updateDeviceSize_early:
  "prevDeviceSize c \<noteq> None \<Longrightarrow> cleanupOf arg \<Longrightarrow>
   updateDeviceSize su vp arg (b, c) = (removePointerListeners su c b, c)"
  by (subst updateDeviceSize.simps) simp

lemma updateDeviceSize_step:
  "\<not> (prevDeviceSize c \<noteq> None \<and> cleanupOf arg) \<Longrightarrow>
   stepDownDue su vp (recomputeSize su vp arg c) \<Longrightarrow>
   updateDeviceSize su vp arg (b, c) =
     updateDeviceSize su vp NoArg
       (if prevDeviceSize c \<noteq> None then removePointerListeners su c b else b,
        (recomputeSize su vp arg c)\<lparr>resolution := resolution c - 1 / 10\<rparr>)"
  by (subst updateDeviceSize.simps) (auto simp add: stepDownDue_def Let_def)

lemma updateDeviceSize_full:
  "\<not> (prevDeviceSize c \<noteq> None \<and> cleanupOf arg) \<Longrightarrow>
   \<not> stepDownDue su vp (recomputeSize su vp arg c) \<Longrightarrow>
   updateDeviceSize su vp arg (b, c) =
     (publish su (canvasSize su vp (recomputeSize su vp arg c)) (Suc (pointerFns c))
        (if prevDeviceSize c \<noteq> None then removePointerListeners su c b else b),
      (recomputeSize su vp arg c)\<lparr>pointerFns := Suc (pointerFns c),
         prevDeviceSize := Some (mutDevice_size (recomputeSize su vp arg c))\<rparr>)"
  by (subst updateDeviceSize.simps) (auto simp add: stepDownDue_def Let_def)

lemma updateDeviceSize_cases [case_names early descend finish]:
  assumes "\<And>su vp arg b c. prevDeviceSize c \<noteq> None \<Longrightarrow> cleanupOf arg \<Longrightarrow> P su vp arg (b, c)"
    and "\<And>su vp arg b c.
           \<not> (prevDeviceSize c \<noteq> None \<and> cleanupOf arg) \<Longrightarrow>
           stepDownDue su vp (recomputeSize su vp arg c) \<Longrightarrow>
           P su vp NoArg
             (if prevDeviceSize c \<noteq> None then removePointerListeners su c b else b,
              (recomputeSize su vp arg c)\<lparr>resolution := resolution c - 1 / 10\<rparr>) \<Longrightarrow>
           P su vp arg (b, c)"
    and "\<And>su vp arg b c.
           \<not> (prevDeviceSize c \<noteq> None \<and> cleanupOf arg) \<Longrightarrow>
           \<not> stepDownDue su vp (recomputeSize su vp arg c) \<Longrightarrow> P su vp arg (b, c)"
  shows "P su vp arg bc"
proof (induction su vp arg bc rule: updateDeviceSize.induct)
  case (1 su vp arg b c)
  show ?case
  proof (cases "prevDeviceSize c \<noteq> None \<and> cleanupOf arg")
    case True
    then show ?thesis using assms(1) by blast
  next
    case False
    show ?thesis
    proof (cases "stepDownDue su vp (recomputeSize su vp arg c)")
      case True
      then have "needsStepDown su (recomputeSize su vp arg c)
                   (canvasSize su vp (recomputeSize su vp arg c))"
        by (simp add: stepDownDue_def)
      from "1.IH" [OF refl False refl refl this] assms(2) [OF False True]
      show ?thesis by simp
    next
      case no: False
      from assms(3) [OF False no] show ?thesis .
    qed
  qed
qed

lemma updateDeviceSize_hasSet:
  "hasSet (snd (updateDeviceSize su vp arg bc)) = hasSet (snd bc)"
proof (induction su vp arg bc rule: updateDeviceSize_cases)
  case (early su vp arg b c)
  then show ?case by (simp add: updateDeviceSize_early)
next
  case (descend su vp arg b c)
  then show ?case by (simp add: updateDeviceSize_step)
next
  case (finish su vp arg b c)
  then show ?case by (simp add: updateDeviceSize_full)
qed

lemma updateDeviceSize_isCleanedUp:
  "isCleanedUp (snd (updateDeviceSize su vp arg bc)) = isCleanedUp (snd bc)"
proof (induction su vp arg bc rule: updateDeviceSize_cases)
  case (early su vp arg b c)
  then show ?case by (simp add: updateDeviceSize_early)
next
  case (descend su vp arg b c)
  then show ?case by (simp add: updateDeviceSize_step)
next
  case (finish su vp arg b c)
  then show ?case by (simp add: updateDeviceSize_full)
qed

text \<open>With an override set, no invocation changes the resolution.\<close>

lemma updateDeviceSize_override:
  assumes "hasSet (snd bc)"
  shows "resolution (snd (updateDeviceSize su vp arg bc)) = resolution (snd bc)"
proof (cases bc)
  case (Pair b c)
  show ?thesis
  proof (cases "prevDeviceSize c \<noteq> None \<and> cleanupOf arg")
    case True
    then show ?thesis using Pair by (simp add: updateDeviceSize_early)
  next
    case False
    have "\<not> stepDownDue su vp (recomputeSize su vp arg c)"
      using assms Pair stepDownDue_hasSet [of su vp "recomputeSize su vp arg c"] by auto
    from updateDeviceSize_full [OF False this] show ?thesis
      using Pair by simp
  qed
qed

text \<open>An invocation that is neither for a scroll nor for the cleanup ends with the size
  calculated from the window.\<close>

lemma updateDeviceSize_size:
  "\<not> didScrollOf arg \<Longrightarrow> \<not> cleanupOf arg \<Longrightarrow>
   mutDevice_size (snd (updateDeviceSize su vp arg bc)) = calculatedSize su vp"
proof (induction su vp arg bc rule: updateDeviceSize_cases)
  case (early su vp arg b c)
  then show ?case by simp
next
  case (descend su vp arg b c)
  then show ?case by (simp add: updateDeviceSize_step)
next
  case (finish su vp arg b c)
  then show ?case by (simp add: updateDeviceSize_full recomputeSize_def)
qed

lemma updateDeviceSize_prevDeviceSize:
  "\<not> cleanupOf arg \<Longrightarrow>
   prevDeviceSize (snd (updateDeviceSize su vp arg bc))
     = Some (mutDevice_size (snd (updateDeviceSize su vp arg bc)))"
proof (induction su vp arg bc rule: updateDeviceSize_cases)
  case (early su vp arg b c)
  then show ?case by simp
next
  case (descend su vp arg b c)
  then show ?case by (simp add: updateDeviceSize_step)
next
  case (finish su vp arg b c)
  then show ?case by (simp add: updateDeviceSize_full)
qed

text \<open>Unless it returns early for the cleanup, the function ends in a state in which the
  step-down test fails.\<close>

lemma updateDeviceSize_stops:
  "\<not> (prevDeviceSize (snd bc) \<noteq> None \<and> cleanupOf arg) \<Longrightarrow>
   \<not> stepDownDue su vp (snd (updateDeviceSize su vp arg bc))"
proof (induction su vp arg bc rule: updateDeviceSize_cases)
  case (early su vp arg b c)
  then show ?case by simp
next
  case (descend su vp arg b c)
  then show ?case by (simp add: updateDeviceSize_step)
next
  case (finish su vp arg b c)
  have "stepDownDue su vp (snd (updateDeviceSize su vp arg (b, c)))
        = stepDownDue su vp (recomputeSize su vp arg c)"
    using finish by (intro stepDownDue_cong) (simp_all add: updateDeviceSize_full)
  then show ?case using finish by simp
qed

text \<open>The step-downs of one invocation: \<open>k\<close> of them, each of one tenth, each taken in a
  state in which the test held.\<close>

lemma step_downs_counted:
  "\<not> (prevDeviceSize (snd bc) \<noteq> None \<and> cleanupOf arg) \<Longrightarrow>
   \<exists>k. resolution (snd (updateDeviceSize su vp arg bc)) = resolution (snd bc) - of_nat k / 10
     \<and> (\<forall>j<k. stepDownDue su vp
           ((if j = 0 then recomputeSize su vp arg (snd bc)
             else snd (updateDeviceSize su vp arg bc))
              \<lparr>resolution := resolution (snd bc) - of_nat j / 10\<rparr>))
     \<and> (k = 0 \<or> 5 / 100 < resolution (snd (updateDeviceSize su vp arg bc)))"
proof (induction su vp arg bc rule: updateDeviceSize_cases)
  case (early su vp arg b c)
  then show ?case by simp
next
  case (finish su vp arg b c)
  have "resolution (snd (updateDeviceSize su vp arg (b, c))) = resolution c"
    using finish by (simp add: updateDeviceSize_full)
  then show ?case
    by (intro exI [of _ 0]) simp
next
  case (descend su vp arg b c)
  define c1 where "c1 = recomputeSize su vp arg c"
  define c2 where "c2 = c1\<lparr>resolution := resolution c - 1 / 10\<rparr>"
  define b1 where "b1 = (if prevDeviceSize c \<noteq> None then removePointerListeners su c b else b)"
  define R where "R = snd (updateDeviceSize su vp NoArg (b1, c2))"
  have unfold: "snd (updateDeviceSize su vp arg (b, c)) = R"
    using descend.hyps by (simp add: updateDeviceSize_step R_def b1_def c2_def c1_def)
  have due1: "stepDownDue su vp c1"
    using descend.hyps by (simp add: c1_def)
  have res2: "resolution c2 = resolution c - 1 / 10"
    by (simp add: c2_def)
  have sizeR: "mutDevice_size R = calculatedSize su vp"
    unfolding R_def by (rule updateDeviceSize_size) simp_all
  have setR: "hasSet R = hasSet c2"
    unfolding R_def by (simp add: updateDeviceSize_hasSet)
  have ih: "\<not> (prevDeviceSize (snd (b1, c2)) \<noteq> None \<and> cleanupOf NoArg) \<Longrightarrow>
     \<exists>k. resolution (snd (updateDeviceSize su vp NoArg (b1, c2)))
           = resolution (snd (b1, c2)) - of_nat k / 10
     \<and> (\<forall>j<k. stepDownDue su vp
           ((if j = 0 then recomputeSize su vp NoArg (snd (b1, c2))
             else snd (updateDeviceSize su vp NoArg (b1, c2)))
              \<lparr>resolution := resolution (snd (b1, c2)) - of_nat j / 10\<rparr>))
     \<and> (k = 0 \<or> 5 / 100 < resolution (snd (updateDeviceSize su vp NoArg (b1, c2))))"
    using descend.IH unfolding b1_def c2_def c1_def .
  have "\<exists>k. resolution R = resolution c2 - of_nat k / 10
     \<and> (\<forall>j<k. stepDownDue su vp
           ((if j = 0 then recomputeSize su vp NoArg c2 else R)
              \<lparr>resolution := resolution c2 - of_nat j / 10\<rparr>))
     \<and> (k = 0 \<or> 5 / 100 < resolution R)"
    using ih unfolding R_def snd_conv cleanupOf.simps by blast
  then obtain k where
    r: "resolution R = resolution c2 - of_nat k / 10"
    and d: "\<forall>j<k. stepDownDue su vp
              ((if j = 0 then recomputeSize su vp NoArg c2 else R)
                 \<lparr>resolution := resolution c2 - of_nat j / 10\<rparr>)"
    and l: "k = 0 \<or> 5 / 100 < resolution R"
    by blast
  have a: "resolution R = resolution c - of_nat (Suc k) / 10"
    using r res2 by (simp add: field_simps)
  have b: "stepDownDue su vp
             ((if j = 0 then c1 else R)\<lparr>resolution := resolution c - of_nat j / 10\<rparr>)"
    if "j < Suc k" for j
  proof (cases j)
    case 0
    have "stepDownDue su vp (c1\<lparr>resolution := resolution c - of_nat 0 / 10\<rparr>)
          = stepDownDue su vp c1"
      by (rule stepDownDue_cong) (simp_all add: c1_def)
    then show ?thesis using 0 due1 by simp
  next
    case (Suc i)
    then have "i < k" using that by simp
    with d have di: "stepDownDue su vp
              ((if i = 0 then recomputeSize su vp NoArg c2 else R)
                 \<lparr>resolution := resolution c2 - of_nat i / 10\<rparr>)"
      by blast
    have "stepDownDue su vp (R\<lparr>resolution := resolution c - of_nat (Suc i) / 10\<rparr>)
          = stepDownDue su vp
              ((if i = 0 then recomputeSize su vp NoArg c2 else R)
                 \<lparr>resolution := resolution c2 - of_nat i / 10\<rparr>)"
      by (rule stepDownDue_cong)
        (simp_all add: sizeR setR res2 recomputeSize_def field_simps)
    then show ?thesis using di Suc by simp
  qed
  have c: "5 / 100 < resolution R"
  proof (cases "k = 0")
    case True
    have "15 / 100 < resolution c"
      using stepDownDue_resolution [OF due1] by (simp add: c1_def)
    then show ?thesis using r res2 True by simp
  next
    case False
    then show ?thesis using l by simp
  qed
  show ?case
    unfolding snd_conv unfold
  proof (intro exI [of _ "Suc k"] conjI allI impI)
    show "resolution R = resolution c - of_nat (Suc k) / 10"
      by (rule a)
  next
    fix j
    assume "j < Suc k"
    then show "stepDownDue su vp
        ((if j = 0 then recomputeSize su vp arg c else R)
           \<lparr>resolution := resolution c - of_nat j / 10\<rparr>)"
      using b [of j] unfolding c1_def by blast
  next
    show "Suc k = 0 \<or> 5 / 100 < resolution R"
      using c by simp
  qed
qed

subsection \<open>The automatic step-down\<close>

text \<open>
  \<^bold>\<open>C2\<close>, as the claim states it, fails in its floor: on a window of 1920 by 1080 at a
  device pixel ratio of 2, with a budget of 100000 pixels, no override and the multiplier
  at 1, the function steps down nine times and ends at \<open>1 / 10\<close>, below \<open>0.15\<close>. The test
  \<^verbatim>\<open>resolution > 0.15\<close> guards the step, not its result.
\<close>

theorem step_down_below_floor:
  "resolution (snd (updateDeviceSize exampleSettings (exampleViewport 1920 1080 2) NoArg
      (emptyBrowser, initialClosure (fillViewport 1920 1080)))) = 1 / 10 \<and>
   resolution (snd (updateDeviceSize exampleSettings (exampleViewport 1920 1080 2) NoArg
      (emptyBrowser, initialClosure (fillViewport 1920 1080)))) < 15 / 100"
  by code_simp

text \<open>
  \<^bold>\<open>C2\<close>, amended. For every starting multiplier and every budget, an invocation that
  does not return early for the cleanup performs some number \<open>k\<close> of step-downs, each of
  exactly \<open>0.1\<close>. Each is taken in a state in which the budget is set, no override
  exists, the projected pixel count exceeds the budget and the multiplier is above
  \<open>0.15\<close>; the invocation ends in the first state in which that fails, so as soon as the
  projected count is within budget or the multiplier is at most \<open>0.15\<close>. A multiplier
  that was stepped down is above \<open>0.05\<close>.
\<close>

theorem step_down_amended:
  assumes "\<not> (prevDeviceSize c \<noteq> None \<and> cleanupOf arg)"
  shows "\<exists>k. resolution (snd (updateDeviceSize su vp arg (b, c))) = resolution c - of_nat k / 10
     \<and> (\<forall>j<k. stepDownDue su vp
           ((if j = 0 then recomputeSize su vp arg c
             else snd (updateDeviceSize su vp arg (b, c)))
              \<lparr>resolution := resolution c - of_nat j / 10\<rparr>))
     \<and> \<not> stepDownDue su vp (snd (updateDeviceSize su vp arg (b, c)))
     \<and> (k = 0 \<or> 5 / 100 < resolution (snd (updateDeviceSize su vp arg (b, c))))"
proof -
  have p: "\<not> (prevDeviceSize (snd (b, c)) \<noteq> None \<and> cleanupOf arg)"
    using assms by simp
  have counted: "\<exists>k. resolution (snd (updateDeviceSize su vp arg (b, c)))
        = resolution c - of_nat k / 10
     \<and> (\<forall>j<k. stepDownDue su vp
           ((if j = 0 then recomputeSize su vp arg c
             else snd (updateDeviceSize su vp arg (b, c)))
              \<lparr>resolution := resolution c - of_nat j / 10\<rparr>))
     \<and> (k = 0 \<or> 5 / 100 < resolution (snd (updateDeviceSize su vp arg (b, c))))"
    using step_downs_counted [OF p, of su vp] unfolding snd_conv .
  have stops: "\<not> stepDownDue su vp (snd (updateDeviceSize su vp arg (b, c)))"
    by (rule updateDeviceSize_stops [OF p])
  from counted stops show ?thesis by blast
qed

theorem step_down_amended_witness:
  "\<not> (prevDeviceSize (initialClosure (fillViewport 500 400)) \<noteq> None \<and> cleanupOf NoArg) \<and>
   resolution (snd (updateDeviceSize exampleSettings (exampleViewport 500 400 1) NoArg
      (emptyBrowser, initialClosure (fillViewport 500 400)))) = 7 / 10 \<and>
   (\<exists>k. resolution (snd (updateDeviceSize exampleSettings (exampleViewport 500 400 1) NoArg
            (emptyBrowser, initialClosure (fillViewport 500 400))))
          = resolution (initialClosure (fillViewport 500 400)) - of_nat k / 10
     \<and> (\<forall>j<k. stepDownDue exampleSettings (exampleViewport 500 400 1)
           ((if j = 0 then recomputeSize exampleSettings (exampleViewport 500 400 1) NoArg
                             (initialClosure (fillViewport 500 400))
             else snd (updateDeviceSize exampleSettings (exampleViewport 500 400 1) NoArg
                        (emptyBrowser, initialClosure (fillViewport 500 400))))
              \<lparr>resolution := resolution (initialClosure (fillViewport 500 400)) - of_nat j / 10\<rparr>))
     \<and> \<not> stepDownDue exampleSettings (exampleViewport 500 400 1)
           (snd (updateDeviceSize exampleSettings (exampleViewport 500 400 1) NoArg
              (emptyBrowser, initialClosure (fillViewport 500 400))))
     \<and> (k = 0 \<or> 5 / 100 < resolution (snd (updateDeviceSize exampleSettings
              (exampleViewport 500 400 1) NoArg
              (emptyBrowser, initialClosure (fillViewport 500 400))))))"
proof -
  have h: "\<not> (prevDeviceSize (initialClosure (fillViewport 500 400)) \<noteq> None \<and> cleanupOf NoArg)"
    by simp
  have r: "resolution (snd (updateDeviceSize exampleSettings (exampleViewport 500 400 1) NoArg
      (emptyBrowser, initialClosure (fillViewport 500 400)))) = 7 / 10"
    by code_simp
  show ?thesis
    using h r step_down_amended [OF h, of exampleSettings "exampleViewport 500 400 1" emptyBrowser]
    by blast
qed

subsection \<open>The user override\<close>

lemma setResolution_fields:
  "hasSet (snd (setResolution su vp r bc))"
  "resolution (snd (setResolution su vp r bc)) = r"
  "storedResolution (fst (setResolution su vp r bc)) = Some (toString su r)"
  "mutDevice_size (snd (setResolution su vp r bc)) = calculatedSize su vp"
  "prevDeviceSize (snd (setResolution su vp r bc)) = Some (calculatedSize su vp)"
proof -
  let ?bc = "(fst bc, (snd bc)\<lparr>resolution := r, hasSet := True\<rparr>)"
  have s: "setResolution su vp r bc =
      ((fst (updateDeviceSize su vp NoArg ?bc))\<lparr>storedResolution := Some (toString su r)\<rparr>,
       snd (updateDeviceSize su vp NoArg ?bc))"
    by (simp add: setResolution_def split: prod.splits)
  show "hasSet (snd (setResolution su vp r bc))"
    unfolding s by (simp add: updateDeviceSize_hasSet)
  show "resolution (snd (setResolution su vp r bc)) = r"
    unfolding s using updateDeviceSize_override [of ?bc su vp NoArg] by simp
  show "storedResolution (fst (setResolution su vp r bc)) = Some (toString su r)"
    unfolding s by simp
  show size: "mutDevice_size (snd (setResolution su vp r bc)) = calculatedSize su vp"
    unfolding s by (simp add: updateDeviceSize_size)
  show "prevDeviceSize (snd (setResolution su vp r bc)) = Some (calculatedSize su vp)"
    using size unfolding s by (simp add: updateDeviceSize_prevDeviceSize)
qed

lemma perform_override:
  assumes "hasSet (snd bc)"
  shows "hasSet (snd (perform su cl bc))"
    and "resolution (snd (perform su cl bc)) = lastSet (resolution (snd bc)) [cl]"
  using assms
  by (cases cl; simp add: updateDeviceSize_hasSet updateDeviceSize_override setResolution_fields)+

lemma lastSet_Cons: "lastSet r (cl # cls) = lastSet (lastSet r [cl]) cls"
  by (cases cl) simp_all

lemma performAll_override:
  assumes "hasSet (snd bc)"
  shows "hasSet (snd (performAll su cls bc)) \<and>
         resolution (snd (performAll su cls bc)) = lastSet (resolution (snd bc)) cls"
  using assms
proof (induction cls arbitrary: bc)
  case Nil
  then show ?case by simp
next
  case (Cons cl cls)
  from Cons.IH [OF perform_override(1) [OF Cons.prems, of su cl]]
  show ?case
    using perform_override(2) [OF Cons.prems, of su cl] lastSet_Cons [of _ cl cls]
    by simp
qed

text \<open>
  \<^bold>\<open>C3.\<close> After \<^verbatim>\<open>resolution.set(v)\<close>, whatever invocations of \<^verbatim>\<open>updateDeviceSize\<close> and
  further calls of \<^verbatim>\<open>set\<close> follow, with whatever window and budget: the override flag
  stays set, the step-down test fails in the state reached, and the multiplier is the
  value of the last \<^verbatim>\<open>set\<close> (so \<open>v\<close> itself when only invocations of
  \<^verbatim>\<open>updateDeviceSize\<close> follow).
\<close>

theorem no_step_down_after_set:
  "hasSet (snd (performAll su cls (setResolution su vp v bc))) \<and>
   \<not> stepDownDue su vp' (snd (performAll su cls (setResolution su vp v bc))) \<and>
   resolution (snd (performAll su cls (setResolution su vp v bc))) = lastSet v cls \<and>
   resolution (snd (performAll su (map (\<lambda>(w, arg). Update w arg) ups)
      (setResolution su vp v bc))) = v"
proof -
  have s: "hasSet (snd (setResolution su vp v bc))"
    by (rule setResolution_fields)
  have none: "lastSet r (map (\<lambda>(w, arg). Update w arg) ups) = r" for r
    by (induction ups) (simp_all split: prod.splits)
  have "hasSet (snd (performAll su cls (setResolution su vp v bc)))"
    using performAll_override [OF s] by blast
  moreover from this
  have "\<not> stepDownDue su vp' (snd (performAll su cls (setResolution su vp v bc)))"
    using stepDownDue_hasSet by blast
  moreover have "resolution (snd (performAll su cls (setResolution su vp v bc))) = lastSet v cls"
    using performAll_override [OF s, of su cls] by (simp add: setResolution_fields)
  moreover have "resolution (snd (performAll su (map (\<lambda>(w, arg). Update w arg) ups)
      (setResolution su vp v bc))) = v"
    using performAll_override [OF s, of su "map (\<lambda>(w, arg). Update w arg) ups"]
    by (simp add: setResolution_fields none)
  ultimately show ?thesis by blast
qed

theorem no_step_down_after_set_witness:
  "hasSet (snd (performAll exampleSettings
      [Update (exampleViewport 1920 1080 2) BrowserEvent,
       Update (exampleViewport 1920 1000 2) (Opts False True)]
      (setResolution exampleSettings (exampleViewport 1920 1080 2) (1 / 2)
         (emptyBrowser, initialClosure (fillViewport 1920 1080))))) \<and>
   resolution (snd (performAll exampleSettings
      [Update (exampleViewport 1920 1080 2) BrowserEvent,
       Update (exampleViewport 1920 1000 2) (Opts False True)]
      (setResolution exampleSettings (exampleViewport 1920 1080 2) (1 / 2)
         (emptyBrowser, initialClosure (fillViewport 1920 1080))))) = 1 / 2"
  using no_step_down_after_set [of exampleSettings
      "[Update (exampleViewport 1920 1080 2) BrowserEvent,
        Update (exampleViewport 1920 1000 2) (Opts False True)]"
      "exampleViewport 1920 1080 2" "1 / 2"
      "(emptyBrowser, initialClosure (fillViewport 1920 1080))"]
  by simp

subsection \<open>The size on scroll and on resize\<close>

text \<open>On a scroll with a previous size, the stored size stays when no step-down is due;
  on a resize, and on any first run, it is calculated from the window.\<close>

lemma scroll_keeps_size:
  assumes "prevDeviceSize c \<noteq> None" and "\<not> stepDownDue su vp c"
  shows "mutDevice_size (snd (updateDeviceSize su vp (Opts False True) (b, c))) = mutDevice_size c"
proof -
  have "recomputeSize su vp (Opts False True) c = c"
    using assms(1) by (simp add: recomputeSize_def)
  then show ?thesis
    using assms updateDeviceSize_full [of c "Opts False True" su vp b] by simp
qed

lemma resize_recomputes_size:
  "mutDevice_size (snd (updateDeviceSize su vp BrowserEvent bc)) = calculatedSize su vp"
  by (rule updateDeviceSize_size) simp_all

lemma first_run_computes_size:
  assumes "prevDeviceSize c = None"
  shows "mutDevice_size (snd (updateDeviceSize su vp arg (b, c))) = calculatedSize su vp"
proof (cases "stepDownDue su vp (recomputeSize su vp arg c)")
  case True
  then show ?thesis
    using assms by (simp add: updateDeviceSize_step updateDeviceSize_size)
next
  case False
  then show ?thesis
    using assms by (simp add: updateDeviceSize_full recomputeSize_def)
qed

text \<open>
  \<^bold>\<open>C8.\<close> The claim wants a scroll with a previous size to leave the stored size alone, as
  the comment in the source does. The game starts on a window of 300 by 300 at a device
  pixel ratio of 1, within the budget of 100000 pixels. The scroll listener then runs with
  the window at 300 by 250 and the ratio at 2: the kept size is over budget, the
  multiplier steps down, and the recursive call, made without the scroll flag, replaces
  the stored size by the one calculated from the window.
\<close>

theorem scroll_with_step_down_recomputes_size:
  "(case renderCanvas exampleSettings (exampleViewport 300 300 1) emptyBrowser of
      (b, Inr c) \<Rightarrow>
        prevDeviceSize c = Some (fillViewport 300 300) \<and>
        mutDevice_size c = fillViewport 300 300 \<and>
        mutDevice_size (snd (updateDeviceSize exampleSettings (exampleViewport 300 250 2)
           (Opts False True) (b, c))) = fillViewport 300 250
    | (b, Inl e) \<Rightarrow> False)"
  by code_simp

subsection \<open>The stored resolution\<close>

text \<open>
  \<^bold>\<open>C10\<close>, as the claim states it, fails where it has a value that parses to \<^verbatim>\<open>NaN\<close> leave
  the multiplier at 1: the callback runs after \<^verbatim>\<open>launch\<close>, and on a window of 1920 by
  1080 at a device pixel ratio of 2 with a budget of 100000 pixels \<^verbatim>\<open>launch\<close> has already
  stepped the multiplier down to \<open>1 / 10\<close>; the stored \<^verbatim>\<open>"abc"\<close> is ignored and the
  multiplier stays there.
\<close>

theorem ignored_item_keeps_stepped_down_multiplier:
  "(case renderCanvas exampleSettings (exampleViewport 1920 1080 2) emptyBrowser of
      (b, Inr c) \<Rightarrow>
        toNumber exampleSettings ''abc'' = None \<and>
        resolution (snd (storageLoaded exampleSettings (exampleViewport 1920 1080 2)
           (Some ''abc'') (b, c))) = 1 / 10
    | (b, Inl e) \<Rightarrow> False)"
  by code_simp

text \<open>
  \<^bold>\<open>C10\<close>, amended. When the store holds an item that parses to a number \<open>r\<close>, of whatever
  magnitude, the callback applies it through \<^verbatim>\<open>resolution.set\<close>: the multiplier is \<open>r\<close>,
  the override flag is set, the device size is calculated anew from the window, the item
  \<^verbatim>\<open>String(r)\<close> is written back, and from then on the multiplier changes only by further
  calls of \<^verbatim>\<open>set\<close>. An item that parses to \<^verbatim>\<open>NaN\<close>, and no item at all, change nothing:
  multiplier and override flag stay as they were when the callback ran.
\<close>

theorem stored_resolution_applied:
  assumes "toNumber su v = Some r" and "toNumber su v' = None"
  shows "resolution (snd (storageLoaded su vp (Some v) bc)) = r \<and>
         hasSet (snd (storageLoaded su vp (Some v) bc)) \<and>
         mutDevice_size (snd (storageLoaded su vp (Some v) bc)) = calculatedSize su vp \<and>
         prevDeviceSize (snd (storageLoaded su vp (Some v) bc)) = Some (calculatedSize su vp) \<and>
         storedResolution (fst (storageLoaded su vp (Some v) bc)) = Some (toString su r) \<and>
         resolution (snd (performAll su cls (storageLoaded su vp (Some v) bc))) = lastSet r cls \<and>
         storageLoaded su vp (Some v') bc = bc \<and>
         storageLoaded su vp None bc = bc"
proof -
  have s: "storageLoaded su vp (Some v) bc = setResolution su vp r bc"
    using assms(1) by (simp add: storageLoaded_def)
  have "resolution (snd (performAll su cls (setResolution su vp r bc))) = lastSet r cls"
    using performAll_override [of "setResolution su vp r bc" su cls]
    by (simp add: setResolution_fields)
  then show ?thesis
    unfolding s using assms(2) by (simp add: setResolution_fields storageLoaded_def)
qed

theorem stored_resolution_applied_witness:
  "toNumber exampleSettings ''0.5'' = Some (1 / 2) \<and>
   toNumber exampleSettings ''abc'' = None \<and>
   resolution (snd (storageLoaded exampleSettings (exampleViewport 1920 1080 2) (Some ''0.5'')
      (emptyBrowser, initialClosure (fillViewport 1920 1080)))) = 1 / 2 \<and>
   hasSet (snd (storageLoaded exampleSettings (exampleViewport 1920 1080 2) (Some ''0.5'')
      (emptyBrowser, initialClosure (fillViewport 1920 1080)))) \<and>
   storedResolution (fst (storageLoaded exampleSettings (exampleViewport 1920 1080 2)
      (Some ''0.5'') (emptyBrowser, initialClosure (fillViewport 1920 1080))))
     = Some (toString exampleSettings (1 / 2)) \<and>
   storageLoaded exampleSettings (exampleViewport 1920 1080 2) (Some ''abc'')
      (emptyBrowser, initialClosure (fillViewport 1920 1080))
     = (emptyBrowser, initialClosure (fillViewport 1920 1080))"
proof -
  have h1: "toNumber exampleSettings ''0.5'' = Some (1 / 2)"
    by (simp add: exampleSettings_def exampleNumber_def)
  have h2: "toNumber exampleSettings ''abc'' = None"
    by (simp add: exampleSettings_def exampleNumber_def)
  show ?thesis
    using h1 h2 stored_resolution_applied [OF h1 h2, of "exampleViewport 1920 1080 2"
        "(emptyBrowser, initialClosure (fillViewport 1920 1080))" "[]"]
    by blast
qed

subsection \<open>Startup\<close>

lemma addEventListener_other [simp]:
  "animationFrameRequests (addEventListener tg ty fn b) = animationFrameRequests b"
  "launchTimeouts (addEventListener tg ty fn b) = launchTimeouts b"
  by (simp_all add: addEventListener_def)

text \<open>
  \<^bold>\<open>C9.\<close> When the \<^verbatim>\<open>webgl\<close> context, the \<^verbatim>\<open>ANGLE_instanced_arrays\<close> extension or the
  \<^verbatim>\<open>OES_vertex_array_object\<close> extension is missing, \<^verbatim>\<open>renderCanvas\<close> returns an \<^verbatim>\<open>Error\<close>
  value, and it returns with the listeners as they were, no animation frame requested
  and no launch timer set.
\<close>

theorem renderCanvas_capability_missing:
  assumes "\<not> (webgl su \<and> angleInstancedArrays su \<and> oesVertexArrayObject su)"
  shows "snd (renderCanvas su vp b) \<in>
           {Inl (Error ''WebGL not supported''),
            Inl (Error ''WebGL instancing not supported''),
            Inl (Error ''WebGL VAO not supported'')} \<and>
         listeners (fst (renderCanvas su vp b)) = listeners b \<and>
         animationFrameRequests (fst (renderCanvas su vp b)) = animationFrameRequests b \<and>
         launchTimeouts (fst (renderCanvas su vp b)) = launchTimeouts b"
  using assms by (auto simp: renderCanvas_def Let_def)

theorem renderCanvas_capability_missing_witness:
  "\<not> (webgl (exampleSettings\<lparr>angleInstancedArrays := False\<rparr>) \<and>
      angleInstancedArrays (exampleSettings\<lparr>angleInstancedArrays := False\<rparr>) \<and>
      oesVertexArrayObject (exampleSettings\<lparr>angleInstancedArrays := False\<rparr>)) \<and>
   snd (renderCanvas (exampleSettings\<lparr>angleInstancedArrays := False\<rparr>)
          (exampleViewport 800 600 1) emptyBrowser)
     = Inl (Error ''WebGL instancing not supported'') \<and>
   listeners (fst (renderCanvas (exampleSettings\<lparr>angleInstancedArrays := False\<rparr>)
          (exampleViewport 800 600 1) emptyBrowser)) = [] \<and>
   animationFrameRequests (fst (renderCanvas (exampleSettings\<lparr>angleInstancedArrays := False\<rparr>)
          (exampleViewport 800 600 1) emptyBrowser)) = 0 \<and>
   launchTimeouts (fst (renderCanvas (exampleSettings\<lparr>angleInstancedArrays := False\<rparr>)
          (exampleViewport 800 600 1) emptyBrowser)) = 0"
proof -
  have h: "\<not> (webgl (exampleSettings\<lparr>angleInstancedArrays := False\<rparr>) \<and>
      angleInstancedArrays (exampleSettings\<lparr>angleInstancedArrays := False\<rparr>) \<and>
      oesVertexArrayObject (exampleSettings\<lparr>angleInstancedArrays := False\<rparr>))"
    by simp
  have e: "snd (renderCanvas (exampleSettings\<lparr>angleInstancedArrays := False\<rparr>)
          (exampleViewport 800 600 1) emptyBrowser)
     = Inl (Error ''WebGL instancing not supported'')"
    by (simp add: renderCanvas_def exampleSettings_def Let_def)
  show ?thesis
    using h e renderCanvas_capability_missing [OF h, of "exampleViewport 800 600 1" emptyBrowser]
    by (simp add: emptyBrowser_def)
qed

subsection \<open>Cleanup\<close>

text \<open>After \<^verbatim>\<open>cleanup\<close> the flag \<^verbatim>\<open>isCleanedUp\<close> is set, and a frame callback that finds it
  set changes nothing and does nothing.\<close>

lemma cleanup_marks_inert: "isCleanedUp (snd (cleanup su vp bc))"
  by (simp add: cleanup_def Let_def updateDeviceSize_isCleanedUp)

lemma frame_after_cleanup:
  "newWebFrame time (snd (cleanup su vp bc)) = (snd (cleanup su vp bc), [])"
  using cleanup_marks_inert [of su vp bc] by (simp add: newWebFrame_def)

text \<open>
  \<^bold>\<open>C7.\<close> The claim wants \<^verbatim>\<open>cleanup\<close> to remove every listener that \<^verbatim>\<open>renderCanvas\<close>
  registered, as the comment on \<^verbatim>\<open>cleanup\<close> does. After a startup on a window of 300 by
  300 and a \<^verbatim>\<open>cleanup\<close>, five listeners are still registered: the two keyboard listeners
  (the removal names the imported handlers, not the wrappers that were registered), the
  \<^verbatim>\<open>contextmenu\<close> listener and the two first-interaction listeners. The clock is inert.
\<close>

theorem cleanup_leaves_listeners:
  "(case renderCanvas exampleSettings (exampleViewport 300 300 1) emptyBrowser of
      (b, Inr c) \<Rightarrow>
        listeners (fst (cleanup exampleSettings (exampleViewport 300 300 1) (b, c)))
          = [(Document, ''keydown'', KeyDownHandlerFn),
             (Document, ''keyup'', KeyUpHandlerFn),
             (Document, ''contextmenu'', ContextMenuFn),
             (Document, ''keydown'', OnFirstInteractionFn),
             (Document, ''pointerdown'', OnFirstInteractionFn)] \<and>
        newWebFrame 16 (snd (cleanup exampleSettings (exampleViewport 300 300 1) (b, c)))
          = (snd (cleanup exampleSettings (exampleViewport 300 300 1) (b, c)), [])
    | (b, Inl e) \<Rightarrow> False)"
  by code_simp

text \<open>When \<^verbatim>\<open>cleanup\<close> runs before any size was computed (the window was still of size
  zero and \<^verbatim>\<open>launch\<close> is waiting on its timer), the call of \<^verbatim>\<open>updateDeviceSize\<close> does not
  return early: it registers the four pointer listeners.\<close>

lemma cleanup_before_launch_adds_listeners:
  "(case renderCanvas exampleSettings (exampleViewport 0 0 1) emptyBrowser of
      (b, Inr c) \<Rightarrow>
        prevDeviceSize c = None \<and> launchTimeouts b = 1 \<and>
        listeners (fst (cleanup exampleSettings (exampleViewport 0 0 1) (b, c)))
          = [(Document, ''keydown'', KeyDownHandlerFn),
             (Document, ''keyup'', KeyUpHandlerFn),
             (Document, ''contextmenu'', ContextMenuFn),
             (Document, ''keydown'', OnFirstInteractionFn),
             (Document, ''pointerdown'', OnFirstInteractionFn),
             (Document, ''pointerdown'', PointerDownFn 1),
             (Document, ''pointermove'', PointerMoveFn 1),
             (Document, ''pointerup'', PointerUpFn 1),
             (Document, ''pointercancel'', PointerCancelFn 1)]
    | (b, Inl e) \<Rightarrow> False)"
  by code_simp

subsection \<open>Releasing a pointer\<close>

lemma pointerUpTouches_eq:
  "pointerUpTouches getX getY sz ts calls =
     calls @ map (\<lambda>t. releaseOf sz (getX (screenX t)) (getY (screenY t)) (touch_identifier t)) ts"
  by (induction ts arbitrary: calls) (simp_all add: releaseOf_def Let_def)

text \<open>
  \<^bold>\<open>C6.\<close> On a pointer-up event the dispatcher makes one call, on a touch-end event one
  call for each changed touch, in their order: the cancel handler with the identifier
  when the converted release point lies outside the play region, the up handler with the
  converted coordinates and the identifier otherwise.
\<close>

theorem pointerUp_dispatch:
  "pointerUp getX getY sz (PointerEvent clientX clientY pointerId)
     = [releaseOf sz (getX clientX) (getY clientY) pointerId] \<and>
   pointerUp getX getY sz (TouchEvent changedTouches)
     = map (\<lambda>t. releaseOf sz (getX (screenX t)) (getY (screenY t)) (touch_identifier t))
         changedTouches"
  by (simp add: pointerUp_def pointerUpTouches_eq releaseOf_def Let_def)

theorem pointerUp_dispatch_witness:
  "pointerUp (\<lambda>x. x - 400) (\<lambda>y. 300 - y) (fillViewport 800 600) (PointerEvent 900 100 7)
     = [PointerCancelHandler 7] \<and>
   pointerUp (\<lambda>x. x - 400) (\<lambda>y. 300 - y) (fillViewport 800 600)
     (TouchEvent [\<lparr>screenX = 500, screenY = 100, touch_identifier = 1\<rparr>,
                  \<lparr>screenX = 900, screenY = 100, touch_identifier = 2\<rparr>])
     = [PointerUpHandler 100 200 1, PointerCancelHandler 2]"
  using pointerUp_dispatch [of "\<lambda>x. x - 400" "\<lambda>y. 300 - y" "fillViewport 800 600" 900 100 7
      "[\<lparr>screenX = 500, screenY = 100, touch_identifier = 1\<rparr>,
        \<lparr>screenX = 900, screenY = 100, touch_identifier = 2\<rparr>]"]
  by (simp add: releaseOf_def isPointerOutsideGame_def fillViewport_def)

end
